theory Spec2Isabelle
  imports Complex_Main "HOL-Library.AList"
begin

section \<open>Python strings\<close>

text \<open>
  A Python \<open>str\<close> is a sequence of Unicode code points: \<open>len\<close>, slicing and \<open>find\<close>
  count code points. The model is a list of code point numbers. String literals of the
  source that are plain ASCII are written \<open>ascii ''...''\<close>; Cyrillic literals are written
  as their code point lists.
\<close>

type_synonym ustr = "nat list"

definition ascii :: "string \<Rightarrow> ustr" where
  "ascii s = map of_char s"

text \<open>The relation type tags and entity kind tags that occur as literals in the source.\<close>

definition RESIDENCE :: ustr where "RESIDENCE = ascii ''RESIDENCE''"
definition HAS_RESIDENT :: ustr where "HAS_RESIDENT = ascii ''HAS_RESIDENT''"
definition FAMILY :: ustr where "FAMILY = ascii ''FAMILY''"
definition FRIENDSHIP :: ustr where "FRIENDSHIP = ascii ''FRIENDSHIP''"
definition WORK :: ustr where "WORK = ascii ''WORK''"
definition LOVE :: ustr where "LOVE = ascii ''LOVE''"
definition PERSON :: ustr where "PERSON = ascii ''PERSON''"
definition LOC :: ustr where "LOC = ascii ''LOC''"
definition UNKNOWN :: ustr where "UNKNOWN = ascii ''UNKNOWN''"

section \<open>Relations\<close>

text \<open>
  A relation is a Python dict. The keys \<open>source\<close>, \<open>target\<close> and \<open>type\<close> are read with
  \<open>relation['...']\<close> everywhere and are fields; the other keys are read with
  \<open>relation.get\<close> and may be absent (\<open>None\<close>). The confidence values are the float
  literals 0.8, 0.75 and 0.5 of the source, which are only stored and copied, never
  computed with; they are the rationals 4/5, 3/4 and 1/2 here.
\<close>

record relation =
  source :: ustr
  target :: ustr
  rtype :: ustr
  confidence :: "rat option"
  rel_context :: "ustr option"
  source_type :: "ustr option"
  target_type :: "ustr option"
  is_reverse :: "bool option"

type_synonym rkey = "ustr \<times> ustr \<times> ustr"

definition rel_key :: "relation \<Rightarrow> rkey" where
  "rel_key r = (source r, target r, rtype r)"

text \<open>\<open>relation.get(k, default)\<close>.\<close>

definition get_or :: "'a option \<Rightarrow> 'a \<Rightarrow> 'a" where
  "get_or v d = (case v of None \<Rightarrow> d | Some x \<Rightarrow> x)"

section \<open>The relation synthesizer: \<open>_create_bidirectional_relations\<close>\<close>

definition bidirectional_map :: "(ustr \<times> ustr) list" where
  "bidirectional_map =
     [(RESIDENCE, HAS_RESIDENT), (FAMILY, FAMILY), (FRIENDSHIP, FRIENDSHIP),
      (WORK, WORK), (LOVE, LOVE)]"

text \<open>The dict appended for \<open>relation\<close> with the reverse type \<open>reverse_type\<close>.\<close>

definition reverse_relation :: "relation \<Rightarrow> ustr \<Rightarrow> relation" where
  "reverse_relation r reverse_type =
     \<lparr> source = target r, target = source r, rtype = reverse_type,
       confidence = Some (get_or (confidence r) (1/2)),
       rel_context = Some (get_or (rel_context r) []),
       source_type = Some (get_or (target_type r) UNKNOWN),
       target_type = Some (get_or (source_type r) UNKNOWN),
       is_reverse = Some True \<rparr>"

text \<open>
  The loop \<open>for relation in relations\<close>. Its state is \<open>seen_reverse\<close> (a set, here the
  list of the keys added so far) and \<open>all_relations\<close>. The first branch is the
  \<open>continue\<close> of the source: for FAMILY, FRIENDSHIP and LOVE, a reverse key that is not
  yet in \<open>seen_reverse\<close> is added to it and the relation is skipped.
\<close>

fun bidirectional_loop :: "relation list \<Rightarrow> rkey list \<Rightarrow> relation list \<Rightarrow> relation list" where
  "bidirectional_loop [] seen_reverse all_relations = all_relations"
| "bidirectional_loop (r # rs) seen_reverse all_relations =
     (if rtype r \<in> set [FAMILY, FRIENDSHIP, LOVE]
         \<and> (target r, source r, rtype r) \<notin> set seen_reverse
      then bidirectional_loop rs ((target r, source r, rtype r) # seen_reverse) all_relations
      else (case map_of bidirectional_map (rtype r) of
              None \<Rightarrow> bidirectional_loop rs seen_reverse all_relations
            | Some reverse_type \<Rightarrow>
                if (target r, source r, reverse_type) \<notin> set seen_reverse
                then bidirectional_loop rs ((target r, source r, reverse_type) # seen_reverse)
                       (all_relations @ [reverse_relation r reverse_type])
                else bidirectional_loop rs seen_reverse all_relations))"

definition create_bidirectional_relations :: "relation list \<Rightarrow> relation list" where
  "create_bidirectional_relations relations = bidirectional_loop relations [] relations"

section \<open>The ontology aggregator: \<open>OntologyBuilder\<close>\<close>

text \<open>
  An entity dict as \<open>extract_entities\<close> produces it and as the relation extractor and
  the ontology builder read it: the keys
  \<open>text\<close>, \<open>start\<close>, \<open>end\<close> and \<open>normalized\<close>.
\<close>

record entity =
  "text" :: ustr
  start :: int
  "end" :: int
  normalized :: ustr

text \<open>
  The attributes dict of an ontology entity. \<open>mentions\<close> is always present;
  \<open>first_mention\<close> only on entities created from an input entity; \<open>total_relations\<close> and
  \<open>relation_types\<close> are written by \<open>_enrich_entities\<close>.
\<close>

record attributes =
  mentions :: int
  first_mention :: "int option"
  total_relations :: "int option"
  attr_relation_types :: "(ustr \<times> int) list option"

record entity_data =
  etype :: ustr
  attrs :: attributes

text \<open>
  \<open>self.ontology\<close>. The \<open>entities\<close> dict is an association list in insertion order
  (Python dicts keep it); \<open>relation_types\<close> is a set, kept as the list of its members.
\<close>

record ontology =
  entities :: "(ustr \<times> entity_data) list"
  relations :: "relation list"
  ont_relation_types :: "ustr list"

definition init_ontology :: ontology where
  "init_ontology = \<lparr> entities = [], relations = [], ont_relation_types = [] \<rparr>"

text \<open>The body of the inner loop \<open>for entity in entity_list\<close>.\<close>

definition add_entity :: "ustr \<Rightarrow> entity \<Rightarrow> (ustr \<times> entity_data) list \<Rightarrow> (ustr \<times> entity_data) list" where
  "add_entity entity_type e ents =
     (let name = normalized e in
      case map_of ents name of
        None \<Rightarrow> ents @ [(name, \<lparr> etype = entity_type,
                    attrs = \<lparr> mentions = 1, first_mention = Some (start e),
                              total_relations = None, attr_relation_types = None \<rparr> \<rparr>)]
      | Some d \<Rightarrow> AList.update name (d\<lparr> attrs := (attrs d)\<lparr> mentions := mentions (attrs d) + 1 \<rparr> \<rparr>) ents)"

definition add_entities :: "(ustr \<times> entity list) list \<Rightarrow> (ustr \<times> entity_data) list \<Rightarrow> (ustr \<times> entity_data) list" where
  "add_entities ents_in ents =
     fold (\<lambda>(entity_type, entity_list) es. fold (add_entity entity_type) entity_list es) ents_in ents"

text \<open>\<open>if name not in entities: entities[name] = {'type': kind, 'attributes': {'mentions': 0}}\<close>.\<close>

definition ensure_entity :: "ustr \<Rightarrow> ustr \<Rightarrow> (ustr \<times> entity_data) list \<Rightarrow> (ustr \<times> entity_data) list" where
  "ensure_entity name kind ents =
     (case map_of ents name of
        None \<Rightarrow> ents @ [(name, \<lparr> etype = kind,
                    attrs = \<lparr> mentions = 0, first_mention = None,
                              total_relations = None, attr_relation_types = None \<rparr> \<rparr>)]
      | Some _ \<Rightarrow> ents)"

text \<open>The dict appended to \<open>self.ontology['relations']\<close>: five keys.\<close>

definition stored_relation :: "relation \<Rightarrow> relation" where
  "stored_relation r =
     \<lparr> source = source r, target = target r, rtype = rtype r,
       confidence = Some (get_or (confidence r) (1/2)),
       rel_context = Some (get_or (rel_context r) []),
       source_type = None, target_type = None, is_reverse = None \<rparr>"

text \<open>The body of the loop \<open>for relation in relations\<close> of \<open>build_ontology\<close>.\<close>

definition add_relation :: "relation \<Rightarrow> ontology \<Rightarrow> ontology" where
  "add_relation r ont =
     (let ents1 = ensure_entity (source r) (get_or (source_type r) UNKNOWN) (entities ont);
          ents2 = ensure_entity (target r) (get_or (target_type r) UNKNOWN) ents1
      in \<lparr> entities = ents2,
           relations = relations ont @ [stored_relation r],
           ont_relation_types = List.insert (rtype r) (ont_relation_types ont) \<rparr>)"

text \<open>
  \<open>_enrich_entities\<close>. \<open>relation_count\<close> is a \<open>defaultdict(int)\<close>: a total function with
  default 0. \<open>relation_types_count\<close> is a \<open>defaultdict\<close> of \<open>defaultdict(int)\<close>: a total
  function whose default is the empty dict.
\<close>

definition incr :: "ustr \<Rightarrow> (ustr \<times> int) list \<Rightarrow> (ustr \<times> int) list" where
  "incr k d = AList.update k (get_or (map_of d k) 0 + 1) d"

definition count_relation ::
  "relation \<Rightarrow> (ustr \<Rightarrow> int) \<times> (ustr \<Rightarrow> (ustr \<times> int) list) \<Rightarrow> (ustr \<Rightarrow> int) \<times> (ustr \<Rightarrow> (ustr \<times> int) list)" where
  "count_relation r st =
     (let relation_count = fst st; relation_types_count = snd st;
          rc1 = relation_count(source r := relation_count (source r) + 1);
          rc2 = rc1(target r := rc1 (target r) + 1);
          rt1 = relation_types_count(source r := incr (rtype r) (relation_types_count (source r)));
          rt2 = rt1(target r := incr (rtype r) (rt1 (target r)))
      in (rc2, rt2))"

definition count_relations :: "relation list \<Rightarrow> (ustr \<Rightarrow> int) \<times> (ustr \<Rightarrow> (ustr \<times> int) list)" where
  "count_relations rels = fold count_relation rels (\<lambda>_. 0, \<lambda>_. [])"

definition enrich_entities :: "ontology \<Rightarrow> ontology" where
  "enrich_entities ont =
     (let counts = count_relations (relations ont) in
      ont\<lparr> entities :=
             map (\<lambda>(entity_name, entity_data).
                    (entity_name,
                     entity_data\<lparr> attrs := (attrs entity_data)
                       \<lparr> total_relations := Some (fst counts entity_name),
                         attr_relation_types := Some (snd counts entity_name) \<rparr> \<rparr>))
                 (entities ont) \<rparr>)"

text \<open>\<open>build_ontology\<close> on the builder state \<open>ont\<close>; a new builder has \<open>init_ontology\<close>.\<close>

definition build_ontology :: "ontology \<Rightarrow> (ustr \<times> entity list) list \<Rightarrow> relation list \<Rightarrow> ontology" where
  "build_ontology ont ents_in rels =
     enrich_entities (fold add_relation rels (ont\<lparr> entities := add_entities ents_in (entities ont) \<rparr>))"

section \<open>String primitives of Python\<close>

text \<open>
  \<open>s[i:j]\<close>: a negative index counts from the end, and both indices are clamped to the
  string. \<open>s[:n]\<close> is \<open>take n s\<close>.
\<close>

definition py_slice :: "'a list \<Rightarrow> int \<Rightarrow> int \<Rightarrow> 'a list" where
  "py_slice s i j =
     (let n = int (length s);
          i' = (if i < 0 then max (i + n) 0 else min i n);
          j' = (if j < 0 then max (j + n) 0 else min j n)
      in take (nat (j' - i')) (drop (nat i') s))"

text \<open>\<open>s.find(sub)\<close>: the lowest index where \<open>sub\<close> occurs in \<open>s\<close>; \<open>None\<close> is Python's -1.\<close>

fun find_idx :: "ustr \<Rightarrow> ustr \<Rightarrow> nat option" where
  "find_idx sub [] = (if sub = [] then Some 0 else None)"
| "find_idx sub (c # cs) =
     (if take (length sub) (c # cs) = sub then Some 0 else map_option Suc (find_idx sub cs))"

text \<open>\<open>s.find(sub, start)\<close> for \<open>start \<ge> 0\<close>.\<close>

definition py_find :: "ustr \<Rightarrow> ustr \<Rightarrow> nat \<Rightarrow> nat option" where
  "py_find s sub start_at =
     (if start_at > length s then None
      else map_option (\<lambda>i. i + start_at) (find_idx sub (drop start_at s)))"

text \<open>\<open>sub in s\<close>.\<close>

definition contains :: "ustr \<Rightarrow> ustr \<Rightarrow> bool" where
  "contains sub s = (find_idx sub s \<noteq> None)"

text \<open>
  The code points for which \<open>str.isspace\<close> holds; \<open>str.split()\<close> and \<open>str.strip()\<close>
  cut at them.
\<close>

definition isspace :: "nat \<Rightarrow> bool" where
  "isspace c = (c \<in> set [9, 10, 11, 12, 13, 28, 29, 30, 31, 32, 133, 160, 5760,
                         8192, 8193, 8194, 8195, 8196, 8197, 8198, 8199, 8200, 8201, 8202,
                         8232, 8233, 8239, 8287, 12288])"

fun split_acc :: "ustr \<Rightarrow> ustr \<Rightarrow> ustr list" where
  "split_acc w [] = (if w = [] then [] else [w])"
| "split_acc w (c # cs) =
     (if isspace c then (if w = [] then split_acc [] cs else w # split_acc [] cs)
      else split_acc (w @ [c]) cs)"

definition split :: "ustr \<Rightarrow> ustr list" where
  "split s = split_acc [] s"

definition strip :: "ustr \<Rightarrow> ustr" where
  "strip s = rev (dropWhile isspace (rev (dropWhile isspace s)))"

text \<open>\<open>s.rstrip(chars)\<close>.\<close>

definition rstrip :: "ustr \<Rightarrow> ustr \<Rightarrow> ustr" where
  "rstrip s chars = rev (dropWhile (\<lambda>c. c \<in> set chars) (rev s))"

section \<open>The relation extractor: \<open>RelationExtractor\<close>\<close>

text \<open>
  \<open>str.lower\<close> is the Unicode lower-casing of Python. The extractor's functions take it
  as the parameter \<open>lower\<close>, so that what is proved of them for every \<open>lower\<close> holds for
  Python's. The keyword tables below are the class attributes of the source; a Cyrillic
  keyword is the list of its code points (1072 is U+0430, CYRILLIC SMALL LETTER A; 1105 is
  U+0451, CYRILLIC SMALL LETTER IO).
\<close>

definition RESIDENCE_KEYWORDS :: "ustr list" where
  "RESIDENCE_KEYWORDS =
     [[1080, 1079],
      [1074],
      [1078, 1080, 1074, 1105, 1090],
      [1078, 1080, 1074, 1077, 1090],
      [1087, 1088, 1086, 1078, 1080, 1074, 1072, 1077, 1090],
      [1088, 1086, 1076, 1086, 1084],
      [1088, 1086, 1076, 1080, 1083, 1089, 1103],
      [1088, 1086, 1076, 1080, 1083, 1072, 1089, 1100],
      [1091, 1088, 1086, 1078, 1077, 1085, 1077, 1094],
      [1091, 1088, 1086, 1078, 1077, 1085, 1082, 1072],
      [1078, 1080, 1083],
      [1078, 1080, 1083, 1072],
      [1078, 1080, 1083, 1080],
      [1078, 1080, 1074, 1091, 1090],
      [1085, 1072, 1093, 1086, 1076, 1080, 1090, 1089, 1103],
      ascii ''from'',
      ascii ''lives in'',
      ascii ''born in'',
      ascii ''from'',
      ascii ''resides in'',
      ascii ''native of'']"

definition FAMILY_KEYWORDS :: "ustr list" where
  "FAMILY_KEYWORDS =
     [[1073, 1088, 1072, 1090],
      [1089, 1077, 1089, 1090, 1088, 1072],
      [1084, 1072, 1090, 1100],
      [1086, 1090, 1077, 1094],
      [1089, 1099, 1085],
      [1076, 1086, 1095, 1100],
      [1088, 1086, 1076, 1089, 1090, 1074, 1077, 1085, 1085, 1080, 1082, 1080],
      [1088, 1086, 1076, 1089, 1090, 1074, 1077, 1085, 1085, 1080, 1082],
      [1089, 1077, 1084, 1100, 1103],
      [1088, 1086, 1076, 1080, 1090, 1077, 1083, 1080],
      [1076, 1077, 1076],
      [1073, 1072, 1073, 1091, 1096, 1082, 1072],
      [1074, 1085, 1091, 1082],
      [1074, 1085, 1091, 1095, 1082, 1072],
      [1076, 1103, 1076, 1103],
      [1090, 1105, 1090, 1103],
      ascii ''brother'',
      ascii ''sister'',
      ascii ''mother'',
      ascii ''father'',
      ascii ''son'',
      ascii ''daughter'',
      ascii ''family'',
      ascii ''relative'',
      ascii ''parent'',
      ascii ''grandfather'',
      ascii ''grandmother'',
      ascii ''uncle'',
      ascii ''aunt'']"

definition FRIENDSHIP_KEYWORDS :: "ustr list" where
  "FRIENDSHIP_KEYWORDS =
     [[1076, 1088, 1091, 1079, 1100, 1103],
      [1076, 1088, 1091, 1075],
      [1087, 1086, 1076, 1088, 1091, 1075, 1072],
      [1079, 1085, 1072, 1082, 1086, 1084],
      [1074, 1089, 1090, 1088, 1077, 1090, 1080, 1083],
      [1074, 1089, 1090, 1088, 1077, 1090, 1080, 1083, 1072],
      [1079, 1085, 1072, 1083],
      [1079, 1085, 1072, 1083, 1072],
      ascii ''friends'',
      ascii ''friend'',
      ascii ''met'',
      ascii ''know'',
      ascii ''knew'',
      ascii ''acquaintance'']"

definition WORK_KEYWORDS :: "ustr list" where
  "WORK_KEYWORDS =
     [[1082, 1086, 1083, 1083, 1077, 1075, 1080],
      [1082, 1086, 1083, 1083, 1077, 1075, 1072],
      [1088, 1072, 1073, 1086, 1090, 1072, 1083],
      [1088, 1072, 1073, 1086, 1090, 1072, 1083, 1072],
      [1085, 1072, 1095, 1072, 1083, 1100, 1085, 1080, 1082],
      [1087, 1086, 1076, 1095, 1080, 1085, 1105, 1085, 1085, 1099, 1081],
      ascii ''colleagues'',
      ascii ''colleague'',
      ascii ''worked'',
      ascii ''boss'',
      ascii ''employee'',
      ascii ''manager'']"

definition LOVE_KEYWORDS :: "ustr list" where
  "LOVE_KEYWORDS =
     [[1083, 1102, 1073, 1086, 1074, 1100],
      [1083, 1102, 1073, 1080, 1090],
      [1083, 1102, 1073, 1080, 1083, 1072],
      [1078, 1077, 1085, 1072, 1090],
      [1079, 1072, 1084, 1091, 1078, 1077, 1084],
      [1078, 1077, 1085, 1072],
      [1084, 1091, 1078],
      [1074, 1083, 1102, 1073, 1083, 1105, 1085],
      ascii ''love'',
      ascii ''loves'',
      ascii ''married'',
      ascii ''wife'',
      ascii ''husband'',
      ascii ''in love'']"

text \<open>The exceptions that the extractor can raise on entity dicts with all their keys.\<close>

datatype py_error = IndexError | AttributeError

text \<open>\<open>name.split()[0] if name else ''\<close>: IndexError on a name of whitespace only.\<close>

definition first_name :: "ustr \<Rightarrow> py_error + ustr" where
  "first_name name =
     (if name \<noteq> [] then (case split name of [] \<Rightarrow> Inl IndexError | w # _ \<Rightarrow> Inr w)
      else Inr [])"

text \<open>
  A loop that only appends to \<open>relations\<close>, and whose body may raise: the relations the
  bodies append, in order, or the first exception.
\<close>

fun concat_mapE :: "('a \<Rightarrow> py_error + 'b list) \<Rightarrow> 'a list \<Rightarrow> py_error + 'b list" where
  "concat_mapE f [] = Inr []"
| "concat_mapE f (x # xs) =
     (case f x of
        Inl e \<Rightarrow> Inl e
      | Inr ys \<Rightarrow> (case concat_mapE f xs of Inl e \<Rightarrow> Inl e | Inr zs \<Rightarrow> Inr (ys @ zs)))"

subsection \<open>\<open>_find_all_positions\<close>\<close>

text \<open>
  The \<open>while True\<close> loop, from the value \<open>start_at\<close> of its variable \<open>start\<close>. Each
  found position is at least \<open>start_at\<close> and at most the length of the lowered text, so the loop ends.
\<close>

function find_all_positions_from :: "(ustr \<Rightarrow> ustr) \<Rightarrow> ustr \<Rightarrow> ustr \<Rightarrow> nat \<Rightarrow> nat list" where
  "find_all_positions_from lower txt substring start_at =
     (case py_find (lower txt) (lower substring) start_at of
        None \<Rightarrow> []
      | Some pos \<Rightarrow> pos # find_all_positions_from lower txt substring (pos + 1))"
  by pat_completeness auto
termination
proof (relation "measure (\<lambda>(lower, txt, substring, start_at). Suc (length (lower txt)) - start_at)")
  show "wf (measure (\<lambda>(lower, txt, substring, start_at). Suc (length (lower txt)) - start_at))"
    by simp
next
  fix lw :: "ustr \<Rightarrow> ustr" and t sub :: ustr and i pos :: nat
  assume "py_find (lw t) (lw sub) i = Some pos"
  then have "i \<le> length (lw t)" and "i \<le> pos"
    by (auto simp: py_find_def split: if_splits)
  then show "((lw, t, sub, pos + 1), (lw, t, sub, i))
        \<in> measure (\<lambda>(lower, txt, substring, start_at). Suc (length (lower txt)) - start_at)"
    by simp
qed

definition find_all_positions :: "(ustr \<Rightarrow> ustr) \<Rightarrow> ustr \<Rightarrow> ustr \<Rightarrow> nat list" where
  "find_all_positions lower txt substring = find_all_positions_from lower txt substring 0"

text \<open>
  \<open>for variant in variants: if variant: positions.extend(self._find_all_positions(text, variant))\<close>.
\<close>

definition positions_of :: "(ustr \<Rightarrow> ustr) \<Rightarrow> ustr \<Rightarrow> ustr list \<Rightarrow> nat list" where
  "positions_of lower txt variants =
     concat (map (find_all_positions lower txt) (filter (\<lambda>variant. variant \<noteq> []) variants))"

text \<open>\<open>sorted(set(positions))[:n]\<close>.\<close>

definition sorted_set_prefix :: "nat \<Rightarrow> nat list \<Rightarrow> nat list" where
  "sorted_set_prefix n positions = take n (sort (remdups positions))"

text \<open>\<open>entities.get(kind, [])\<close>.\<close>

definition entities_get :: "(ustr \<times> entity list) list \<Rightarrow> ustr \<Rightarrow> entity list" where
  "entities_get ents kind = get_or (map_of ents kind) []"

subsection \<open>The relation dicts the extractor appends\<close>

text \<open>
  Both methods of Strategy A append the same dict, with confidence 0.8 or 0.75 and with
  \<open>window.strip()[:150]\<close> as context; Strategy B appends a dict with the relation type
  of the keyword table and confidence 0.75. Neither has the key \<open>is_reverse\<close>.
\<close>

definition residence_relation :: "ustr \<Rightarrow> ustr \<Rightarrow> rat \<Rightarrow> ustr \<Rightarrow> relation" where
  "residence_relation person_name loc_name conf window =
     \<lparr> source = person_name, target = loc_name, rtype = RESIDENCE,
       confidence = Some conf,
       rel_context = Some (take 150 (strip window)),
       source_type = Some PERSON, target_type = Some LOC,
       is_reverse = None \<rparr>"

definition person_relation :: "ustr \<Rightarrow> ustr \<Rightarrow> ustr \<Rightarrow> ustr \<Rightarrow> relation" where
  "person_relation p1_name p2_name relation_type window =
     \<lparr> source = p1_name, target = p2_name, rtype = relation_type,
       confidence = Some (3/4),
       rel_context = Some (take 150 (strip window)),
       source_type = Some PERSON, target_type = Some PERSON,
       is_reverse = None \<rparr>"

subsection \<open>Strategy A: \<open>_extract_person_location_relations\<close>\<close>

text \<open>
  The dict \<open>loc_text_variants\<close>, in insertion order. \<open>AList.update\<close> replaces the value
  of a key that is present and keeps its place, and appends a new key, as a Python dict
  does. The characters stripped are the Cyrillic vowels of the source, the endings its
  list of case endings.
\<close>

definition add_loc_variants :: "(ustr \<Rightarrow> ustr) \<Rightarrow> entity \<Rightarrow> (ustr \<times> entity) list \<Rightarrow> (ustr \<times> entity) list" where
  "add_loc_variants lower loc d =
     (let loc_normalized = lower (normalized loc);
          loc_original = lower (text loc);
          d1 = AList.update loc_normalized loc d;
          d2 = AList.update loc_original loc d1;
          base = rstrip loc_normalized [1072, 1077, 1080, 1086, 1091, 1099, 1101, 1102, 1103]
      in if base \<noteq> [] \<and> base \<noteq> loc_normalized
         then fold (\<lambda>ending. AList.update (base @ ending) loc)
                [[1072], [1077], [1080], [1091], [1086, 1084], [1086, 1081], [1077],
                 [1072, 1084, 1080]] d2
         else d2)"

definition loc_text_variants :: "(ustr \<Rightarrow> ustr) \<Rightarrow> entity list \<Rightarrow> (ustr \<times> entity) list" where
  "loc_text_variants lower locations = fold (add_loc_variants lower) locations []"

text \<open>
  \<open>loc_variant in search_window_lower or any(len(part) > 3 and part in search_window_lower
  for part in loc_variant.split())\<close>.
\<close>

definition variant_in_window :: "ustr \<Rightarrow> ustr \<Rightarrow> bool" where
  "variant_in_window loc_variant search_window_lower =
     (contains loc_variant search_window_lower
      \<or> list_ex (\<lambda>part. length part > 3 \<and> contains part search_window_lower) (split loc_variant))"

text \<open>
  Method 1, the body of \<open>for keyword in self.RESIDENCE_KEYWORDS\<close>: on a keyword of the
  context, the first location variant found in the search window gives one relation
  (the \<open>break\<close> leaves the loop over the variants).
\<close>

definition pattern_keyword ::
  "(ustr \<Rightarrow> ustr) \<Rightarrow> (ustr \<times> entity) list \<Rightarrow> ustr \<Rightarrow> ustr \<Rightarrow> ustr \<Rightarrow> relation list" where
  "pattern_keyword lower variants person_name ctx keyword =
     (case find_idx keyword (lower ctx) of
        None \<Rightarrow> []
      | Some keyword_pos \<Rightarrow>
          (let search_window = py_slice ctx (max 0 (int keyword_pos - 100))
                                 (min (int (length ctx)) (int keyword_pos + 100));
               search_window_lower = lower search_window
           in case find (\<lambda>(loc_variant, loc_data). variant_in_window loc_variant search_window_lower)
                     variants of
                None \<Rightarrow> []
              | Some (loc_variant, loc_data) \<Rightarrow>
                  [residence_relation person_name (normalized loc_data) (4/5) search_window]))"

text \<open>Method 1, the body of \<open>for person in persons\<close>.\<close>

definition pattern_person ::
  "(ustr \<Rightarrow> ustr) \<Rightarrow> ustr \<Rightarrow> (ustr \<times> entity) list \<Rightarrow> entity \<Rightarrow> relation list" where
  "pattern_person lower txt variants person =
     (let person_name = normalized person;
          context_start = max 0 (start person - 300);
          context_end = min (int (length txt)) (end person + 300);
          ctx = py_slice txt context_start context_end
      in concat (map (pattern_keyword lower variants person_name ctx) RESIDENCE_KEYWORDS))"

text \<open>
  Method 2, the body of \<open>for p_pos in person_positions\<close>: the first \<open>l_pos\<close> closer than
  200 whose context holds a residence keyword gives one relation (the \<open>break\<close> leaves
  the loop over \<open>loc_positions\<close>).
\<close>

definition proximity_context :: "ustr \<Rightarrow> nat \<Rightarrow> nat \<Rightarrow> ustr" where
  "proximity_context txt p_pos l_pos =
     py_slice txt (max 0 (int (min p_pos l_pos) - 100))
                  (min (int (length txt)) (int (max p_pos l_pos) + 100))"

definition proximity_hit :: "(ustr \<Rightarrow> ustr) \<Rightarrow> ustr \<Rightarrow> nat \<Rightarrow> nat \<Rightarrow> bool" where
  "proximity_hit lower txt p_pos l_pos =
     (\<bar>int p_pos - int l_pos\<bar> < 200
      \<and> list_ex (\<lambda>keyword. contains keyword (lower (proximity_context txt p_pos l_pos)))
           RESIDENCE_KEYWORDS)"

definition proximity_position ::
  "(ustr \<Rightarrow> ustr) \<Rightarrow> ustr \<Rightarrow> ustr \<Rightarrow> ustr \<Rightarrow> nat list \<Rightarrow> nat \<Rightarrow> relation list" where
  "proximity_position lower txt person_name loc_name loc_positions p_pos =
     (case find (proximity_hit lower txt p_pos) loc_positions of
        None \<Rightarrow> []
      | Some l_pos \<Rightarrow>
          [residence_relation person_name loc_name (3/4) (proximity_context txt p_pos l_pos)])"

text \<open>Method 2, the body of \<open>for loc in locations\<close>.\<close>

definition proximity_loc ::
  "(ustr \<Rightarrow> ustr) \<Rightarrow> ustr \<Rightarrow> ustr \<Rightarrow> nat list \<Rightarrow> entity \<Rightarrow> relation list" where
  "proximity_loc lower txt person_name person_positions loc =
     (let loc_name = normalized loc;
          loc_original = text loc;
          loc_positions = sorted_set_prefix 20 (positions_of lower txt [loc_name, loc_original])
      in concat (map (proximity_position lower txt person_name loc_name loc_positions)
                     person_positions))"

text \<open>Method 2, the body of \<open>for person in persons\<close>.\<close>

definition proximity_person ::
  "(ustr \<Rightarrow> ustr) \<Rightarrow> ustr \<Rightarrow> entity list \<Rightarrow> entity \<Rightarrow> py_error + relation list" where
  "proximity_person lower txt locations person =
     (let person_name = normalized person in
      case first_name person_name of
        Inl e \<Rightarrow> Inl e
      | Inr person_first_name \<Rightarrow>
          if person_first_name = [] then Inr []
          else (let person_positions =
                      sorted_set_prefix 20 (positions_of lower txt [person_first_name, person_name])
                in Inr (concat (map (proximity_loc lower txt person_name person_positions)
                                    locations))))"

text \<open>
  The loop that fills \<open>person_name_variants\<close>. The dict is never read; what the loop can
  do is raise, at \<open>person_normalized.split()[0]\<close>.
\<close>

definition person_name_variants :: "entity list \<Rightarrow> py_error + relation list" where
  "person_name_variants persons =
     concat_mapE (\<lambda>person. case first_name (normalized person) of
                              Inl e \<Rightarrow> Inl e | Inr first \<Rightarrow> Inr []) persons"

text \<open>The final loop: the first relation of each (source, target, type) key is kept.\<close>

fun unique_relations :: "relation list \<Rightarrow> rkey list \<Rightarrow> relation list" where
  "unique_relations [] seen = []"
| "unique_relations (rel # rels) seen =
     (if rel_key rel \<notin> set seen then rel # unique_relations rels (rel_key rel # seen)
      else unique_relations rels seen)"

definition extract_person_location_relations ::
  "(ustr \<Rightarrow> ustr) \<Rightarrow> ustr \<Rightarrow> (ustr \<times> entity list) list \<Rightarrow> py_error + relation list" where
  "extract_person_location_relations lower txt ents =
     (let persons = entities_get ents PERSON;
          locations = entities_get ents LOC
      in if persons = [] \<or> locations = [] then Inr []
         else (let variants = loc_text_variants lower locations;
                   method1 = concat (map (pattern_person lower txt variants) persons)
               in case person_name_variants persons of
                    Inl e \<Rightarrow> Inl e
                  | Inr _ \<Rightarrow>
                      (case concat_mapE (proximity_person lower txt locations) persons of
                         Inl e \<Rightarrow> Inl e
                       | Inr method2 \<Rightarrow> Inr (unique_relations (method1 @ method2) []))))"

subsection \<open>Strategy B: \<open>_extract_person_person_relations\<close>\<close>

definition relation_types_keywords :: "(ustr list \<times> ustr) list" where
  "relation_types_keywords =
     [(FAMILY_KEYWORDS, FAMILY), (FRIENDSHIP_KEYWORDS, FRIENDSHIP),
      (WORK_KEYWORDS, WORK), (LOVE_KEYWORDS, LOVE)]"

text \<open>
  The loop \<open>for person2 in persons\<close>, which ends at the first relation it appends
  (\<open>break\<close>): that relation if there is one, or the exception of \<open>p2_name.split()[0]\<close>.
\<close>

fun find_person2 ::
  "(ustr \<Rightarrow> ustr) \<Rightarrow> ustr \<Rightarrow> entity \<Rightarrow> nat \<Rightarrow> ustr \<Rightarrow> ustr \<Rightarrow> entity list \<Rightarrow> py_error + relation list" where
  "find_person2 lower txt person1 p1_pos relation_type search_window [] = Inr []"
| "find_person2 lower txt person1 p1_pos relation_type search_window (person2 # rest) =
     (if normalized person1 = normalized person2
      then find_person2 lower txt person1 p1_pos relation_type search_window rest
      else (let p2_name = normalized person2 in
            case first_name p2_name of
              Inl e \<Rightarrow> Inl e
            | Inr p2_first \<Rightarrow>
                (let p2_variants = [lower p2_name, lower (text person2)]
                                   @ (if p2_first \<noteq> [] then [lower p2_first] else [])
                 in if p2_first = []
                    then find_person2 lower txt person1 p1_pos relation_type search_window rest
                    else if list_ex (\<lambda>variant. contains variant (lower search_window))
                              (filter (\<lambda>variant. variant \<noteq> []) p2_variants)
                            \<and> list_ex (\<lambda>p2_pos. \<bar>int p1_pos - int p2_pos\<bar> < 600)
                                 (take 20 (positions_of lower txt [p2_first, p2_name, text person2]))
                    then Inr [person_relation (normalized person1) p2_name relation_type search_window]
                    else find_person2 lower txt person1 p1_pos relation_type search_window rest)))"

text \<open>The body of \<open>for keyword in keywords\<close>.\<close>

definition person_keyword ::
  "(ustr \<Rightarrow> ustr) \<Rightarrow> ustr \<Rightarrow> entity list \<Rightarrow> entity \<Rightarrow> nat \<Rightarrow> ustr \<Rightarrow> ustr \<Rightarrow> ustr \<Rightarrow> py_error + relation list" where
  "person_keyword lower txt persons person1 p1_pos ctx relation_type keyword =
     (case find_idx keyword (lower ctx) of
        None \<Rightarrow> Inr []
      | Some keyword_pos \<Rightarrow>
          (let search_window = py_slice ctx (max 0 (int keyword_pos - 150))
                                 (min (int (length ctx)) (int keyword_pos + 150))
           in find_person2 lower txt person1 p1_pos relation_type search_window persons))"

text \<open>The body of \<open>for p1_pos in p1_positions\<close>.\<close>

definition person_position ::
  "(ustr \<Rightarrow> ustr) \<Rightarrow> ustr \<Rightarrow> entity list \<Rightarrow> entity \<Rightarrow> ustr \<Rightarrow> nat \<Rightarrow> py_error + relation list" where
  "person_position lower txt persons person1 p1_first p1_pos =
     (let context_start = max 0 (int p1_pos - 300);
          context_end = min (int (length txt)) (int p1_pos + int (length p1_first) + 300);
          ctx = py_slice txt context_start context_end
      in concat_mapE (\<lambda>(keywords, relation_type).
           concat_mapE (person_keyword lower txt persons person1 p1_pos ctx relation_type) keywords)
           relation_types_keywords)"

text \<open>The body of \<open>for person1 in persons\<close>.\<close>

definition person_person1 ::
  "(ustr \<Rightarrow> ustr) \<Rightarrow> ustr \<Rightarrow> entity list \<Rightarrow> entity \<Rightarrow> py_error + relation list" where
  "person_person1 lower txt persons person1 =
     (let p1_name = normalized person1 in
      case first_name p1_name of
        Inl e \<Rightarrow> Inl e
      | Inr p1_first \<Rightarrow>
          if p1_first = [] then Inr []
          else (let p1_original = text person1;
                    p1_positions =
                      sorted_set_prefix 30 (positions_of lower txt [p1_first, p1_name, p1_original])
                in concat_mapE (person_position lower txt persons person1 p1_first) p1_positions))"

text \<open>
  The final loop: a relation is kept when neither its key nor its reversed key has been
  kept before.
\<close>

fun unique_unordered :: "relation list \<Rightarrow> rkey list \<Rightarrow> relation list" where
  "unique_unordered [] seen = []"
| "unique_unordered (rel # rels) seen =
     (if rel_key rel \<notin> set seen \<and> (target rel, source rel, rtype rel) \<notin> set seen
      then rel # unique_unordered rels (rel_key rel # seen)
      else unique_unordered rels seen)"

definition extract_person_person_relations ::
  "(ustr \<Rightarrow> ustr) \<Rightarrow> ustr \<Rightarrow> (ustr \<times> entity list) list \<Rightarrow> py_error + relation list" where
  "extract_person_person_relations lower txt ents =
     (let persons = entities_get ents PERSON
      in if length persons < 2 then Inr []
         else (case concat_mapE (person_person1 lower txt persons) persons of
                 Inl e \<Rightarrow> Inl e
               | Inr rels \<Rightarrow> Inr (unique_unordered rels [])))"

subsection \<open>\<open>extract_relations\<close>\<close>

text \<open>
  \<open>self._extract_simple_relations\<close>: the class \<open>RelationExtractor\<close> defines no method of
  that name (nor does anything else in the repository), so evaluating the attribute
  raises AttributeError.
\<close>

definition extract_simple_relations ::
  "ustr \<Rightarrow> (ustr \<times> entity list) list \<Rightarrow> py_error + relation list" where
  "extract_simple_relations txt ents = Inl AttributeError"

definition extract_relations ::
  "(ustr \<Rightarrow> ustr) \<Rightarrow> ustr \<Rightarrow> (ustr \<times> entity list) list \<Rightarrow> py_error + relation list" where
  "extract_relations lower txt ents =
     (case extract_person_location_relations lower txt ents of
        Inl e \<Rightarrow> Inl e
      | Inr person_loc_rels \<Rightarrow>
          (case extract_person_person_relations lower txt ents of
             Inl e \<Rightarrow> Inl e
           | Inr person_person_rels \<Rightarrow>
               (let rels = person_loc_rels @ person_person_rels in
                if length rels = 0 \<and> length (entities_get ents PERSON) \<ge> 2
                then (case extract_simple_relations txt ents of
                        Inl e \<Rightarrow> Inl e
                      | Inr simple \<Rightarrow> Inr (create_bidirectional_relations (rels @ simple)))
                else Inr (create_bidirectional_relations rels))))"

section \<open>Inputs of the scenarios\<close>

text \<open>
  \<open>str.lower\<close> on the characters of the scenarios: Python maps the capital letters of
  Basic Latin (U+0041 to U+005A) and of the Cyrillic block (U+0410 to U+042F, and U+0400
  to U+040F) to their small letters and leaves the small letters, the space, the full
  stop and the dash as they are. \<open>lower_ru\<close> is that map, code point by code point.
\<close>

definition lower_cp :: "nat \<Rightarrow> nat" where
  "lower_cp c = (if 65 \<le> c \<and> c \<le> 90 then c + 32
                 else if 1040 \<le> c \<and> c \<le> 1071 then c + 32
                 else if 1024 \<le> c \<and> c \<le> 1039 then c + 80 else c)"

definition lower_ru :: "ustr \<Rightarrow> ustr" where
  "lower_ru s = map lower_cp s"

text \<open>
  Scenario 1: the text is the 22 code points of the Russian sentence
  "Ivan zhivyot v Saratove."; the person is "Ivan" at [0, 4), the location is "Saratove"
  at [13, 21) with the normalized form "Saratov".
\<close>

definition name_ivan :: ustr where
  "name_ivan = [1048, 1074, 1072, 1085]"

definition name_saratov :: ustr where
  "name_saratov = [1057, 1072, 1088, 1072, 1090, 1086, 1074]"

definition s1_text :: ustr where
  "s1_text = [1048, 1074, 1072, 1085, 32, 1078, 1080, 1074, 1105, 1090, 32, 1074, 32,
              1057, 1072, 1088, 1072, 1090, 1086, 1074, 1077, 46]"

definition s1_ivan :: entity where
  "s1_ivan = \<lparr> text = name_ivan, start = 0, end = 4, normalized = name_ivan \<rparr>"

definition s1_saratov :: entity where
  "s1_saratov = \<lparr> text = [1057, 1072, 1088, 1072, 1090, 1086, 1074, 1077],
                  start = 13, end = 21, normalized = name_saratov \<rparr>"

definition s1_entities :: "(ustr \<times> entity list) list" where
  "s1_entities = [(PERSON, [s1_ivan]), (LOC, [s1_saratov])]"

text \<open>
  Scenario 2: the text is the 21 code points of "Pyotr i Anna - druz'ya." (with U+2014
  for the dash); the persons are "Pyotr" at [0, 4) and "Anna" at [7, 11), each with its
  surface form as normalized form.
\<close>

definition name_petr :: ustr where
  "name_petr = [1055, 1105, 1090, 1088]"

definition name_anna :: ustr where
  "name_anna = [1040, 1085, 1085, 1072]"

definition s2_text :: ustr where
  "s2_text = [1055, 1105, 1090, 1088, 32, 1080, 32, 1040, 1085, 1085, 1072, 32, 8212, 32,
              1076, 1088, 1091, 1079, 1100, 1103, 46]"

definition s2_petr :: entity where
  "s2_petr = \<lparr> text = name_petr, start = 0, end = 4, normalized = name_petr \<rparr>"

definition s2_anna :: entity where
  "s2_anna = \<lparr> text = name_anna, start = 7, end = 11, normalized = name_anna \<rparr>"

definition s2_entities :: "(ustr \<times> entity list) list" where
  "s2_entities = [(PERSON, [s2_petr, s2_anna])]"

text \<open>
  The same two persons in a text without any keyword: the 12 code points of
  "Pyotr i Anna.".
\<close>

definition plain_text :: ustr where
  "plain_text = [1055, 1105, 1090, 1088, 32, 1080, 32, 1040, 1085, 1085, 1072, 46]"

text \<open>A prefix test that the simplifier runs letter by letter, for the evaluation of \<open>find_idx\<close>.\<close>

fun starts_with :: "ustr \<Rightarrow> ustr \<Rightarrow> bool" where
  "starts_with [] s = True"
| "starts_with (a # as) [] = False"
| "starts_with (a # as) (c # cs) = (a = c \<and> starts_with as cs)"

section \<open>Evaluation lemmas\<close>

lemma take_eq_starts_with: "(take (length sub) s = sub) = starts_with sub s"
  by (induction sub s rule: starts_with.induct) auto

lemma find_idx_Cons:
  "find_idx sub (c # cs) =
     (if starts_with sub (c # cs) then Some 0 else map_option Suc (find_idx sub cs))"
  by (simp only: find_idx.simps take_eq_starts_with)

lemmas str_eval = find_idx_Cons py_find_def contains_def lower_ru_def lower_cp_def
  first_name_def split_def isspace_def strip_def positions_of_def sorted_set_prefix_def
  find_all_positions_def ascii_def

lemma py_slice_whole:
  "i \<le> 0 \<Longrightarrow> int (length s) \<le> j \<Longrightarrow> py_slice s (max 0 i) (min (int (length s)) j) = s"
  by (simp add: py_slice_def Let_def max_def min_def)

lemma concat_mapE_Inr_Nil:
  "(\<And>x. x \<in> set xs \<Longrightarrow> f x = Inr []) \<Longrightarrow> concat_mapE f xs = Inr []"
  by (induction xs) auto

lemma person_keyword_absent:
  "list_all (\<lambda>keyword. find_idx keyword (lower ctx) = None) keywords \<Longrightarrow>
   concat_mapE (person_keyword lower txt persons person1 p1_pos ctx relation_type) keywords = Inr []"
  by (rule concat_mapE_Inr_Nil) (simp add: person_keyword_def list_all_iff)

lemma tags_distinct:
  "distinct [RESIDENCE, HAS_RESIDENT, FAMILY, FRIENDSHIP, WORK, LOVE]"
  by (simp add: RESIDENCE_def HAS_RESIDENT_def FAMILY_def FRIENDSHIP_def WORK_def LOVE_def ascii_def)

lemma kind_tags_distinct: "PERSON \<noteq> LOC" "LOC \<noteq> PERSON"
  by (simp_all add: PERSON_def LOC_def ascii_def)

subsection \<open>Scenario 2\<close>

lemma s2_lower:
  "lower_ru s2_text = [1087, 1105, 1090, 1088, 32, 1080, 32, 1072, 1085, 1085, 1072, 32, 8212, 32,
                       1076, 1088, 1091, 1079, 1100, 1103, 46]"
  by (simp add: lower_ru_def lower_cp_def s2_text_def)

lemma s2_length: "length s2_text = 21"
  by (simp add: s2_text_def)

lemma s2_strip: "strip s2_text = s2_text"
  by (simp add: strip_def isspace_def s2_text_def)

lemma s2_family: "list_all (\<lambda>keyword. find_idx keyword (lower_ru s2_text) = None) FAMILY_KEYWORDS"
  unfolding s2_lower by (simp add: FAMILY_KEYWORDS_def ascii_def find_idx_Cons del: find_idx.simps(2))

lemma s2_work: "list_all (\<lambda>keyword. find_idx keyword (lower_ru s2_text) = None) WORK_KEYWORDS"
  unfolding s2_lower by (simp add: WORK_KEYWORDS_def ascii_def find_idx_Cons del: find_idx.simps(2))

lemma s2_love: "list_all (\<lambda>keyword. find_idx keyword (lower_ru s2_text) = None) LOVE_KEYWORDS"
  unfolding s2_lower by (simp add: LOVE_KEYWORDS_def ascii_def find_idx_Cons del: find_idx.simps(2))

lemma s2_friend_petr:
  "concat_mapE (person_keyword lower_ru s2_text [s2_petr, s2_anna] s2_petr 0 s2_text FRIENDSHIP)
     FRIENDSHIP_KEYWORDS
   = Inr [person_relation name_petr name_anna FRIENDSHIP s2_text]"
  by (simp add: person_keyword_def FRIENDSHIP_KEYWORDS_def str_eval py_slice_def s2_text_def
        s2_petr_def s2_anna_def name_petr_def name_anna_def person_relation_def Let_def
      del: find_idx.simps(2))

lemma s2_friend_anna:
  "concat_mapE (person_keyword lower_ru s2_text [s2_petr, s2_anna] s2_anna 7 s2_text FRIENDSHIP)
     FRIENDSHIP_KEYWORDS
   = Inr [person_relation name_anna name_petr FRIENDSHIP s2_text]"
  by (simp add: person_keyword_def FRIENDSHIP_KEYWORDS_def str_eval py_slice_def s2_text_def
        s2_petr_def s2_anna_def name_petr_def name_anna_def person_relation_def Let_def
      del: find_idx.simps(2))

lemma s2_position_petr:
  "person_position lower_ru s2_text [s2_petr, s2_anna] s2_petr name_petr 0
   = Inr [person_relation name_petr name_anna FRIENDSHIP s2_text]"
proof -
  have ctx: "py_slice s2_text (max 0 (int 0 - 300))
               (min (int (length s2_text)) (int 0 + int (length name_petr) + 300)) = s2_text"
    by (rule py_slice_whole) (simp_all add: s2_length)
  show ?thesis
    unfolding person_position_def Let_def ctx
    by (simp add: relation_types_keywords_def person_keyword_absent s2_family s2_work s2_love
          s2_friend_petr)
qed

lemma s2_position_anna:
  "person_position lower_ru s2_text [s2_petr, s2_anna] s2_anna name_anna 7
   = Inr [person_relation name_anna name_petr FRIENDSHIP s2_text]"
proof -
  have ctx: "py_slice s2_text (max 0 (int 7 - 300))
               (min (int (length s2_text)) (int 7 + int (length name_anna) + 300)) = s2_text"
    by (rule py_slice_whole) (simp_all add: s2_length)
  show ?thesis
    unfolding person_position_def Let_def ctx
    by (simp add: relation_types_keywords_def person_keyword_absent s2_family s2_work s2_love
          s2_friend_anna)
qed

lemma s2_first_petr: "first_name name_petr = Inr name_petr"
  by (simp add: first_name_def split_def isspace_def name_petr_def)

lemma s2_first_anna: "first_name name_anna = Inr name_anna"
  by (simp add: first_name_def split_def isspace_def name_anna_def)

lemma s2_positions_petr:
  "sorted_set_prefix 30 (positions_of lower_ru s2_text [name_petr, name_petr, name_petr]) = [0]"
  by (simp add: str_eval s2_text_def name_petr_def del: find_idx.simps(2))

lemma s2_positions_anna:
  "sorted_set_prefix 30 (positions_of lower_ru s2_text [name_anna, name_anna, name_anna]) = [7]"
  by (simp add: str_eval s2_text_def name_anna_def del: find_idx.simps(2))

lemma s2_names: "name_petr \<noteq> []" "name_anna \<noteq> []" "name_petr \<noteq> name_anna"
  by (simp_all add: name_petr_def name_anna_def)

lemma s2_person1_petr:
  "person_person1 lower_ru s2_text [s2_petr, s2_anna] s2_petr
   = Inr [person_relation name_petr name_anna FRIENDSHIP s2_text]"
  by (simp add: person_person1_def Let_def s2_petr_def s2_first_petr s2_names s2_positions_petr
        s2_position_petr[unfolded s2_petr_def])

lemma s2_person1_anna:
  "person_person1 lower_ru s2_text [s2_petr, s2_anna] s2_anna
   = Inr [person_relation name_anna name_petr FRIENDSHIP s2_text]"
  by (simp add: person_person1_def Let_def s2_anna_def s2_first_anna s2_names s2_positions_anna
        s2_position_anna[unfolded s2_anna_def])

lemma s2_persons: "entities_get s2_entities PERSON = [s2_petr, s2_anna]"
  by (simp add: s2_entities_def entities_get_def get_or_def)

lemma s2_locations: "entities_get s2_entities LOC = []"
  by (simp add: s2_entities_def entities_get_def get_or_def kind_tags_distinct)

lemma s2_person_person:
  "extract_person_person_relations lower_ru s2_text s2_entities
   = Inr [person_relation name_petr name_anna FRIENDSHIP s2_text]"
  by (simp add: extract_person_person_relations_def Let_def s2_persons
        s2_person1_petr s2_person1_anna rel_key_def person_relation_def s2_names)

lemma s2_person_location: "extract_person_location_relations lower_ru txt s2_entities = Inr []"
  by (simp add: extract_person_location_relations_def Let_def s2_locations)

lemma s2_run:
  "extract_relations lower_ru s2_text s2_entities
   = Inr [person_relation name_petr name_anna FRIENDSHIP s2_text]"
  using tags_distinct
  by (simp add: extract_relations_def s2_person_person s2_person_location Let_def
        create_bidirectional_relations_def person_relation_def)

subsection \<open>The text without keywords\<close>

lemma plain_lower:
  "lower_ru plain_text = [1087, 1105, 1090, 1088, 32, 1080, 32, 1072, 1085, 1085, 1072, 46]"
  by (simp add: lower_ru_def lower_cp_def plain_text_def)

lemma plain_length: "length plain_text = 12"
  by (simp add: plain_text_def)

lemma plain_family: "list_all (\<lambda>keyword. find_idx keyword (lower_ru plain_text) = None) FAMILY_KEYWORDS"
  unfolding plain_lower by (simp add: FAMILY_KEYWORDS_def ascii_def find_idx_Cons del: find_idx.simps(2))

lemma plain_friendship: "list_all (\<lambda>keyword. find_idx keyword (lower_ru plain_text) = None) FRIENDSHIP_KEYWORDS"
  unfolding plain_lower by (simp add: FRIENDSHIP_KEYWORDS_def ascii_def find_idx_Cons del: find_idx.simps(2))

lemma plain_work: "list_all (\<lambda>keyword. find_idx keyword (lower_ru plain_text) = None) WORK_KEYWORDS"
  unfolding plain_lower by (simp add: WORK_KEYWORDS_def ascii_def find_idx_Cons del: find_idx.simps(2))

lemma plain_love: "list_all (\<lambda>keyword. find_idx keyword (lower_ru plain_text) = None) LOVE_KEYWORDS"
  unfolding plain_lower by (simp add: LOVE_KEYWORDS_def ascii_def find_idx_Cons del: find_idx.simps(2))

lemma plain_position:
  assumes "p1_pos \<le> 300"
  shows "person_position lower_ru plain_text persons person1 p1_first p1_pos = Inr []"
proof -
  from assms have ctx: "py_slice plain_text (max 0 (int p1_pos - 300))
      (min (int (length plain_text)) (int p1_pos + int (length p1_first) + 300)) = plain_text"
    by (intro py_slice_whole) (simp_all add: plain_length)
  show ?thesis
    unfolding person_position_def Let_def ctx
    by (simp add: relation_types_keywords_def person_keyword_absent plain_family plain_friendship
          plain_work plain_love)
qed

lemma plain_positions_petr:
  "sorted_set_prefix 30 (positions_of lower_ru plain_text [name_petr, name_petr, name_petr]) = [0]"
  by (simp add: str_eval plain_text_def name_petr_def del: find_idx.simps(2))

lemma plain_positions_anna:
  "sorted_set_prefix 30 (positions_of lower_ru plain_text [name_anna, name_anna, name_anna]) = [7]"
  by (simp add: str_eval plain_text_def name_anna_def del: find_idx.simps(2))

lemma plain_person_person:
  "extract_person_person_relations lower_ru plain_text s2_entities = Inr []"
  by (simp add: extract_person_person_relations_def Let_def s2_persons
        person_person1_def s2_petr_def s2_anna_def s2_first_petr s2_first_anna s2_names
        plain_positions_petr plain_positions_anna plain_position)

subsection \<open>Scenario 1\<close>

lemma s1_length: "length s1_text = 22"
  by (simp add: s1_text_def)

lemma s1_strip: "strip s1_text = s1_text"
  by (simp add: strip_def isspace_def s1_text_def)

lemma s1_variants:
  "loc_text_variants lower_ru [s1_saratov] =
     [([1089, 1072, 1088, 1072, 1090, 1086, 1074], s1_saratov),
      ([1089, 1072, 1088, 1072, 1090, 1086, 1074, 1077], s1_saratov)]"
  by (simp add: loc_text_variants_def add_loc_variants_def Let_def rstrip_def lower_ru_def lower_cp_def
        s1_saratov_def name_saratov_def)

lemma s1_method1:
  "concat (map (pattern_keyword lower_ru
       [([1089, 1072, 1088, 1072, 1090, 1086, 1074], s1_saratov),
        ([1089, 1072, 1088, 1072, 1090, 1086, 1074, 1077], s1_saratov)] name_ivan s1_text)
     RESIDENCE_KEYWORDS)
   = [residence_relation name_ivan name_saratov (4/5) s1_text,
      residence_relation name_ivan name_saratov (4/5) s1_text]"
  by (simp add: pattern_keyword_def RESIDENCE_KEYWORDS_def variant_in_window_def str_eval py_slice_def
        Let_def s1_text_def residence_relation_def s1_saratov_def del: find_idx.simps(2))

lemma s1_first_ivan: "first_name name_ivan = Inr name_ivan"
  by (simp add: first_name_def split_def isspace_def name_ivan_def)

lemma s1_names: "name_ivan \<noteq> []" "name_saratov \<noteq> []"
  by (simp_all add: name_ivan_def name_saratov_def)

lemma s1_pattern_person:
  "pattern_person lower_ru s1_text (loc_text_variants lower_ru [s1_saratov]) s1_ivan
   = [residence_relation name_ivan name_saratov (4/5) s1_text,
      residence_relation name_ivan name_saratov (4/5) s1_text]"
proof -
  have ctx: "py_slice s1_text (max 0 (start s1_ivan - 300))
               (min (int (length s1_text)) (end s1_ivan + 300)) = s1_text"
    by (rule py_slice_whole) (simp_all add: s1_length s1_ivan_def)
  have n: "normalized s1_ivan = name_ivan"
    by (simp add: s1_ivan_def)
  show ?thesis
    unfolding pattern_person_def Let_def ctx s1_variants n by (rule s1_method1)
qed

lemma s1_person_positions:
  "sorted_set_prefix 20 (positions_of lower_ru s1_text [name_ivan, name_ivan]) = [0]"
  by (simp add: str_eval s1_text_def name_ivan_def del: find_idx.simps(2))

lemma s1_loc_positions:
  "sorted_set_prefix 20 (positions_of lower_ru s1_text [name_saratov, text s1_saratov]) = [13]"
  by (simp add: str_eval s1_text_def s1_saratov_def name_saratov_def del: find_idx.simps(2))

lemma s1_proximity_context: "proximity_context s1_text 0 13 = s1_text"
  unfolding proximity_context_def by (rule py_slice_whole) (simp_all add: s1_length)

lemma s1_proximity_hit: "proximity_hit lower_ru s1_text 0 13"
  unfolding proximity_hit_def s1_proximity_context
  by (simp add: RESIDENCE_KEYWORDS_def str_eval s1_text_def del: find_idx.simps(2))

lemma s1_proximity_person:
  "proximity_person lower_ru s1_text [s1_saratov] s1_ivan
   = Inr [residence_relation name_ivan name_saratov (3/4) s1_text]"
proof -
  have n: "normalized s1_ivan = name_ivan"
    by (simp add: s1_ivan_def)
  have l: "normalized s1_saratov = name_saratov"
    by (simp add: s1_saratov_def)
  show ?thesis
    unfolding proximity_person_def Let_def n
    by (simp add: s1_first_ivan s1_names s1_person_positions proximity_loc_def Let_def
          s1_loc_positions proximity_position_def s1_proximity_hit s1_proximity_context l)
qed

lemma s1_persons: "entities_get s1_entities PERSON = [s1_ivan]"
  by (simp add: s1_entities_def entities_get_def get_or_def)

lemma s1_locations: "entities_get s1_entities LOC = [s1_saratov]"
  by (simp add: s1_entities_def entities_get_def get_or_def kind_tags_distinct)

lemma s1_person_location:
  "extract_person_location_relations lower_ru s1_text s1_entities
   = Inr [residence_relation name_ivan name_saratov (4/5) s1_text]"
proof -
  have n: "normalized s1_ivan = name_ivan"
    by (simp add: s1_ivan_def)
  show ?thesis
    by (simp add: extract_person_location_relations_def Let_def s1_persons s1_locations
        s1_pattern_person person_name_variants_def n s1_first_ivan s1_proximity_person rel_key_def
        residence_relation_def)
qed

lemma s1_person_person: "extract_person_person_relations lower_ru s1_text s1_entities = Inr []"
  by (simp add: extract_person_person_relations_def Let_def s1_persons)

section \<open>The scenarios of the specification\<close>

text \<open>
  C5 (Scenario 1). On the text "Ivan zhivyot v Saratove." with the person Ivan and the
  location Saratove (normalized Saratov), \<open>extract_relations\<close> returns exactly two
  relations: RESIDENCE from Ivan to Saratov with confidence 0.8, found by the keyword
  method, and its synthesized mirror HAS_RESIDENT from Saratov to Ivan with the same
  confidence.
\<close>

theorem scenario1_residence_and_mirror:
  "extract_relations lower_ru s1_text s1_entities =
     Inr [\<lparr> source = name_ivan, target = name_saratov, rtype = RESIDENCE,
            confidence = Some (4/5), rel_context = Some s1_text,
            source_type = Some PERSON, target_type = Some LOC, is_reverse = None \<rparr>,
          \<lparr> source = name_saratov, target = name_ivan, rtype = HAS_RESIDENT,
            confidence = Some (4/5), rel_context = Some s1_text,
            source_type = Some LOC, target_type = Some PERSON, is_reverse = Some True \<rparr>]"
  using tags_distinct
  by (simp add: extract_relations_def s1_person_person s1_person_location Let_def
        create_bidirectional_relations_def bidirectional_map_def residence_relation_def
        reverse_relation_def get_or_def s1_strip s1_length)

text \<open>
  C4 (Scenario 2). On the text "Pyotr i Anna - druz'ya." with both persons,
  \<open>extract_relations\<close> returns one relation only: FRIENDSHIP from Pyotr to Anna, as
  extracted. The synthesizer adds no mirror, so the result has 1 relation and not 2.
\<close>

theorem scenario2_one_relation:
  "extract_relations lower_ru s2_text s2_entities =
     Inr [\<lparr> source = name_petr, target = name_anna, rtype = FRIENDSHIP,
            confidence = Some (3/4), rel_context = Some s2_text,
            source_type = Some PERSON, target_type = Some PERSON, is_reverse = None \<rparr>]"
  by (simp add: s2_run person_relation_def s2_strip s2_length)

text \<open>
  C1 (mirror completeness). In the list that \<open>extract_relations\<close> returns for Scenario 2
  there is a FRIENDSHIP relation from Pyotr to Anna and no FRIENDSHIP relation from Anna
  to Pyotr.
\<close>

theorem scenario2_mirror_missing:
  "\<exists>rels. extract_relations lower_ru s2_text s2_entities = Inr rels
      \<and> (name_petr, name_anna, FRIENDSHIP) \<in> rel_key ` set rels
      \<and> (name_anna, name_petr, FRIENDSHIP) \<notin> rel_key ` set rels"
  by (simp add: s2_run person_relation_def rel_key_def s2_names)

text \<open>
  C2 (totality). On the text "Pyotr i Anna." with both persons, Strategies A and B find
  nothing, the fallback is looked up, and \<open>extract_relations\<close> raises AttributeError.
\<close>

theorem fallback_raises_attribute_error:
  "extract_relations lower_ru plain_text s2_entities = Inl AttributeError"
  by (simp add: extract_relations_def plain_person_person s2_person_location Let_def
        extract_simple_relations_def s2_persons)

end
